theory Spec2Isabelle
  imports Complex_Main "HOL-Library.Log_Nat"
begin

section \<open>Strings\<close>

text \<open>
  A JavaScript string is modelled as a \<^typ>\<open>string\<close>: one \<^typ>\<open>char\<close> per code unit, for
  code units below 256 (so the letter e-acute of the script's messages is the code unit
  \<open>0xE9\<close>).

  \<open>toLowerCase\<close> maps the capitals \<open>A\<close>..\<open>Z\<close> and \<open>0xC0\<close>..\<open>0xDE\<close> (the multiplication
  sign \<open>0xD7\<close> apart) to the code unit 32 above and leaves every other code unit
  below 256 as it is.

  \<open>toUpperCase\<close> maps the small letters \<open>a\<close>..\<open>z\<close> and \<open>0xE0\<close>..\<open>0xFE\<close> (the division
  sign \<open>0xF7\<close> apart) to the code unit 32 below and the sharp s \<open>0xDF\<close> to \<open>SS\<close>. The
  capitals of the micro sign \<open>0xB5\<close> and of y-diaeresis \<open>0xFF\<close> lie above 255; these two
  code units are left as they are here.
\<close>

definition upper_char :: "char \<Rightarrow> string" where
  "upper_char c =
     (let n = (of_char c :: nat)
      in if (97 \<le> n \<and> n \<le> 122) \<or> (224 \<le> n \<and> n \<le> 254 \<and> n \<noteq> 247) then [char_of (n - 32)]
         else if n = 223 then ''SS''
         else [c])"

definition lower_char :: "char \<Rightarrow> char" where
  "lower_char c =
     (let n = (of_char c :: nat)
      in if (65 \<le> n \<and> n \<le> 90) \<or> (192 \<le> n \<and> n \<le> 222 \<and> n \<noteq> 215) then char_of (n + 32)
         else c)"

definition toUpperCase :: "string \<Rightarrow> string" where
  "toUpperCase str = concat (map upper_char str)"

definition toLowerCase :: "string \<Rightarrow> string" where
  "toLowerCase str = map lower_char str"

text \<open>\<open>str.charAt(0)\<close> is the empty string on the empty string; \<open>str.slice(1)\<close> likewise.\<close>

definition charAt0 :: "string \<Rightarrow> string" where
  "charAt0 str = take 1 str"

definition slice1 :: "string \<Rightarrow> string" where
  "slice1 str = drop 1 str"

text \<open>White space removed by \<open>trim\<close>: TAB, LF, VT, FF, CR, SPACE and NBSP.\<close>

definition is_white_space :: "char \<Rightarrow> bool" where
  "is_white_space c = ((of_char c :: nat) \<in> {9, 10, 11, 12, 13, 32, 160})"

definition trim :: "string \<Rightarrow> string" where
  "trim str = rev (dropWhile is_white_space (rev (dropWhile is_white_space str)))"

text \<open>\<open>str.includes(sub)\<close>: \<open>sub\<close> occurs in \<open>str\<close> as a contiguous run.\<close>

fun includes_str :: "string \<Rightarrow> string \<Rightarrow> bool" where
  "includes_str [] sub = (sub = [])"
| "includes_str (c # cs) sub = (take (length sub) (c # cs) = sub \<or> includes_str cs sub)"

definition padStart :: "nat \<Rightarrow> char \<Rightarrow> string \<Rightarrow> string" where
  "padStart n c str = replicate (n - length str) c @ str"

section \<open>Numbers\<close>

definition digit_char :: "nat \<Rightarrow> char" where
  "digit_char d = ''0123456789'' ! d"

function decimal :: "nat \<Rightarrow> string" where
  "decimal n = (if n < 10 then [digit_char n] else decimal (n div 10) @ [digit_char (n mod 10)])"
  by pat_completeness auto
termination
  by (relation "measure id") auto

declare decimal.simps [simp del]

subsection \<open>Binary floating point\<close>

text \<open>
  A Number is an IEEE 754 binary64 value. \<open>round_double\<close> rounds a rational to 53
  significant bits, ties to even; for magnitudes from \<open>2^-1022\<close> up to \<open>2^1024\<close> this is
  the binary64 value nearest to it, which is the range of \<open>n / 10\<close> for every
  integral Number \<open>n\<close>.
\<close>

definition floor_log2 :: "rat \<Rightarrow> int" where
  "floor_log2 x =
     (let k = bitlen (fst (quotient_of x)) - bitlen (snd (quotient_of x))
      in if 2 powi k \<le> x then k else k - 1)"

definition round_half_even :: "rat \<Rightarrow> int" where
  "round_half_even y =
     (let f = \<lfloor>y\<rfloor>; d = y - of_int f
      in if d < 1 / 2 then f else if 1 / 2 < d then f + 1 else if even f then f else f + 1)"

definition round_double :: "rat \<Rightarrow> rat" where
  "round_double x =
     (if x = 0 then 0
      else let u = 2 powi (floor_log2 \<bar>x\<bar> - 52)
           in sgn x * of_int (round_half_even (\<bar>x\<bar> / u)) * u)"

subsection \<open>Numbers as text\<close>

text \<open>
  An integer written in the body of a response becomes the double nearest to it (for
  magnitudes below \<open>2^1024\<close>, where that double is finite).
\<close>

definition Number :: "int \<Rightarrow> rat" where
  "Number i = round_double (of_int i)"

text \<open>
  \<open>String(x)\<close> of a positive integral double \<open>x\<close> goes by the digits \<open>s\<close>, their count
  \<open>k\<close> and the exponent \<open>n\<close> such that \<open>s * 10^(n - k)\<close> is a number that rounds to \<open>x\<close>,
  with \<open>k\<close> as small as possible and, among those, the number nearest to \<open>x\<close> (the even
  \<open>s\<close> on a tie). For a given \<open>k\<close> the numbers to try are the two multiples of
  \<open>10^(n - k)\<close> around \<open>x\<close>, with as many digits as \<open>x\<close> has or one more.
\<close>

definition candidates :: "nat \<Rightarrow> nat \<Rightarrow> (nat \<times> nat \<times> nat) list" where
  "candidates m k =
     [(n, k, s).
        n \<leftarrow> [length (decimal m), Suc (length (decimal m))],
        s \<leftarrow> [m div 10 ^ (n - k), Suc (m div 10 ^ (n - k))],
        10 ^ (k - 1) \<le> s \<and> s < 10 ^ k \<and> round_double (of_nat (s * 10 ^ (n - k))) = of_nat m]"

fun shortest :: "nat \<Rightarrow> nat list \<Rightarrow> (nat \<times> nat \<times> nat) list" where
  "shortest m [] = []"
| "shortest m (k # ks) = (if candidates m k = [] then shortest m ks else candidates m k)"

definition nearer :: "nat \<Rightarrow> nat \<times> nat \<times> nat \<Rightarrow> nat \<times> nat \<times> nat \<Rightarrow> nat \<times> nat \<times> nat" where
  "nearer m a b =
     (let da = \<bar>int (snd (snd a) * 10 ^ (fst a - fst (snd a))) - int m\<bar>;
          db = \<bar>int (snd (snd b) * 10 ^ (fst b - fst (snd b))) - int m\<bar>
      in if da < db then a else if db < da then b else if even (snd (snd a)) then a else b)"

definition digits_of :: "nat \<Rightarrow> nat \<times> nat \<times> nat" where
  "digits_of m =
     (case shortest m [1 ..< Suc (length (decimal m))] of
        [] \<Rightarrow> (length (decimal m), length (decimal m), m)
      | c # cs \<Rightarrow> foldl (nearer m) c cs)"

text \<open>
  \<open>String(n)\<close> and template interpolation of the Number of an integer. Up to \<open>2^53\<close> every
  integer is a double of its own and the text is its decimal numeral. Above that the
  text is the digits \<open>s\<close> followed by \<open>n - k\<close> zeros while \<open>n\<close> is at most 21, and in
  exponent notation from there on. A negative value has a minus sign in front.
\<close>

definition Number_toString :: "int \<Rightarrow> string" where
  "Number_toString i =
     (let x = Number i;
          m = nat \<lfloor>\<bar>x\<bar>\<rfloor>;
          sign = (if x < 0 then ''-'' else [])
      in sign @
         (if m \<le> 2 ^ 53 then decimal m
          else case digits_of m of
                 (n, k, s) \<Rightarrow>
                   if n \<le> 21 then decimal s @ replicate (n - k) (CHR ''0'')
                   else if k = 1 then decimal s @ ''e+'' @ decimal (n - 1)
                   else take 1 (decimal s) @ ''.'' @ drop 1 (decimal s) @ ''e+'' @ decimal (n - 1)))"

subsection \<open>Fixed-point text\<close>

text \<open>
  \<open>x.toFixed(f)\<close> for a finite \<open>x\<close> of magnitude below \<open>10^21\<close>: the integer \<open>n\<close> with
  \<open>n / 10^f\<close> nearest to \<open>x\<close> (the larger one on a tie), written with \<open>f\<close> digits after
  the point.
\<close>

definition toFixed :: "rat \<Rightarrow> nat \<Rightarrow> string" where
  "toFixed x f =
     (let s = (if x < 0 then ''-'' else '''');
          n = nat \<lfloor>\<bar>x\<bar> * 10 ^ f + 1 / 2\<rfloor>;
          m = (if n = 0 then ''0'' else decimal n);
          m = (if f \<noteq> 0
               then let k = length m;
                        z = (if k \<le> f then replicate (f + 1 - k) (CHR ''0'') @ m else m);
                        k = length z
                    in take (k - f) z @ ''.'' @ drop (k - f) z
               else m)
      in s @ m)"

section \<open>Utility functions of the script\<close>

definition capitalize :: "string \<Rightarrow> string" where
  "capitalize str = toUpperCase (charAt0 str) @ slice1 str"

definition convertHeight :: "int \<Rightarrow> string" where
  "convertHeight decimeters =
     (let meters = toFixed (round_double (Number decimeters / 10)) 2 in meters @ '' m'')"

definition convertWeight :: "int \<Rightarrow> string" where
  "convertWeight hectograms =
     (let kilograms = toFixed (round_double (Number hectograms / 10)) 2 in kilograms @ '' kg'')"

subsection \<open>Property lookup on an object literal\<close>

text \<open>
  \<open>typeColors[type]\<close> reads an own property of the literal or, failing that, a property
  inherited from \<open>Object.prototype\<close>; it is \<open>undefined\<close> (here \<open>None\<close>) when neither has
  the key. The inherited values are functions, except \<open>__proto__\<close>, which is the
  prototype object itself.
\<close>

datatype js_value = JString string | JObject string

definition typeColors :: "(string \<times> string) list" where
  "typeColors =
     [(''normal'', ''bg-gray-400''),
      (''fire'', ''bg-red-500''),
      (''water'', ''bg-blue-500''),
      (''electric'', ''bg-yellow-400''),
      (''grass'', ''bg-green-500''),
      (''ice'', ''bg-blue-200''),
      (''fighting'', ''bg-red-700''),
      (''poison'', ''bg-purple-500''),
      (''ground'', ''bg-yellow-600''),
      (''flying'', ''bg-indigo-400''),
      (''psychic'', ''bg-pink-500''),
      (''bug'', ''bg-green-400''),
      (''rock'', ''bg-yellow-700''),
      (''ghost'', ''bg-purple-700''),
      (''dragon'', ''bg-indigo-700''),
      (''dark'', ''bg-gray-800''),
      (''steel'', ''bg-gray-500''),
      (''fairy'', ''bg-pink-300'')]"

definition Object_prototype :: "string list" where
  "Object_prototype =
     [''constructor'', ''__defineGetter__'', ''__defineSetter__'', ''hasOwnProperty'',
      ''__lookupGetter__'', ''__lookupSetter__'', ''isPrototypeOf'',
      ''propertyIsEnumerable'', ''toString'', ''valueOf'', ''__proto__'',
      ''toLocaleString'']"

definition get_property :: "(string \<times> string) list \<Rightarrow> string \<Rightarrow> js_value option" where
  "get_property obj key =
     (case map_of obj key of
        Some v \<Rightarrow> Some (JString v)
      | None \<Rightarrow> if key \<in> set Object_prototype then Some (JObject key) else None)"

text \<open>\<open>a || b\<close>: \<open>a\<close> when it is truthy (an object, or a non-empty string), else \<open>b\<close>.\<close>

definition or_else :: "js_value option \<Rightarrow> js_value \<Rightarrow> js_value" where
  "or_else a b =
     (case a of
        None \<Rightarrow> b
      | Some (JString s) \<Rightarrow> if s = [] then b else JString s
      | Some (JObject x) \<Rightarrow> JObject x)"

definition getTypeColor :: "string \<Rightarrow> js_value" where
  "getTypeColor type = or_else (get_property typeColors type) (JString ''bg-gray-400'')"

section \<open>The page\<close>

datatype js_error = JsError (error_name: string) (message: string)

datatype element = LoadingIndicator | ErrorMessage | PokemonCard

record image =
  img_src :: string
  img_alt :: string
  img_label :: string

record badge =
  badge_textContent :: string
  badge_classList :: "string list"

text \<open>
  The state the script reads and writes: the elements it selects at load time, the
  requests it has issued and what it has logged to the console. An element carries the
  class \<open>hidden\<close> exactly when \<open>hidden\<close> is true of it.
\<close>

record page =
  pokemonInput_value :: string
  searchBtn_disabled :: bool
  searchBtn_textContent :: string
  hidden :: "element \<Rightarrow> bool"
  errorText_textContent :: string
  pokemonName_textContent :: string
  pokemonId_textContent :: string
  pokemonImages_children :: "image list"
  pokemonHeight_textContent :: string
  pokemonWeight_textContent :: string
  pokemonExperience_textContent :: string
  pokemonTypes_children :: "badge list"
  requests :: "string list"
  console :: "js_error list"

definition showElement :: "element \<Rightarrow> page \<Rightarrow> page" where
  "showElement el p = p\<lparr>hidden := (hidden p)(el := False)\<rparr>"

definition hideElement :: "element \<Rightarrow> page \<Rightarrow> page" where
  "hideElement el p = p\<lparr>hidden := (hidden p)(el := True)\<rparr>"

definition showLoading :: "page \<Rightarrow> page" where
  "showLoading p =
     (showElement LoadingIndicator (hideElement ErrorMessage (hideElement PokemonCard p)))
       \<lparr>searchBtn_disabled := True, searchBtn_textContent := ''Searching...''\<rparr>"

definition hideLoading :: "page \<Rightarrow> page" where
  "hideLoading p =
     (hideElement LoadingIndicator p)
       \<lparr>searchBtn_disabled := False, searchBtn_textContent := ''Search''\<rparr>"

definition showError :: "string \<Rightarrow> page \<Rightarrow> page" where
  "showError msg p =
     showElement ErrorMessage
       ((hideElement PokemonCard (hideLoading p))\<lparr>errorText_textContent := msg\<rparr>)"

section \<open>Rendering a record\<close>

record sprites =
  front_default :: "string option"
  back_default :: "string option"
  front_shiny :: "string option"
  back_shiny :: "string option"

record type_info =
  type_name :: string

record pokemon =
  data_name :: string
  data_id :: int
  data_height :: int
  data_weight :: int
  data_base_experience :: "int option"
  data_sprites :: sprites
  data_types :: "type_info list"

text \<open>
  \<open>classList.add(tokens)\<close>: a token that is empty or holds ASCII white space raises
  before anything is added; otherwise each token not yet in the list is appended. A
  token that is not a string is converted to one first.
\<close>

definition to_DOMString :: "js_value \<Rightarrow> string" where
  "to_DOMString v =
     (case v of
        JString s \<Rightarrow> s
      | JObject x \<Rightarrow>
          if x = ''__proto__'' then ''[object Object]''
          else ''function '' @ (if x = ''constructor'' then ''Object'' else x) @
                 ''() { [native code] }'')"

definition is_ascii_whitespace :: "char \<Rightarrow> bool" where
  "is_ascii_whitespace c = ((of_char c :: nat) \<in> {9, 10, 12, 13, 32})"

fun validate_tokens :: "string list \<Rightarrow> js_error option" where
  "validate_tokens [] = None"
| "validate_tokens (t # ts) =
     (if t = [] then Some (JsError ''SyntaxError'' ''The token provided must not be empty.'')
      else if \<exists>c \<in> set t. is_ascii_whitespace c
      then Some (JsError ''InvalidCharacterError''
                   ''The token provided contains HTML space characters, which are not valid in tokens.'')
      else validate_tokens ts)"

definition classList_add :: "string list \<Rightarrow> js_value list \<Rightarrow> js_error + string list" where
  "classList_add classes tokens =
     (let ts = map to_DOMString tokens
      in case validate_tokens ts of
           Some e \<Rightarrow> Inl e
         | None \<Rightarrow> Inr (foldl (\<lambda>cs t. if t \<in> set cs then cs else cs @ [t]) classes ts))"

definition imageUrls :: "pokemon \<Rightarrow> (string option \<times> string) list" where
  "imageUrls data =
     [(front_default (data_sprites data), ''Front''),
      (back_default (data_sprites data), ''Back''),
      (front_shiny (data_sprites data), ''Shiny Front''),
      (back_shiny (data_sprites data), ''Shiny Back'')]"

text \<open>The body of the \<open>forEach\<close> callback: \<open>if (url)\<close> holds of a non-empty string only.\<close>

definition append_image :: "pokemon \<Rightarrow> page \<Rightarrow> string option \<times> string \<Rightarrow> page" where
  "append_image data p slot =
     (case fst slot of
        None \<Rightarrow> p
      | Some url \<Rightarrow>
          if url = [] then p
          else p\<lparr>pokemonImages_children := pokemonImages_children p @
                 [\<lparr>img_src = url, img_alt = data_name data @ '' '' @ snd slot,
                   img_label = snd slot\<rparr>]\<rparr>)"

text \<open>The body of the \<open>map\<close> callback up to \<open>appendChild\<close>.\<close>

definition type_badge :: "type_info \<Rightarrow> js_error + badge" where
  "type_badge typeInfo =
     (let text = capitalize (type_name typeInfo);
          colorClass = getTypeColor (type_name typeInfo)
      in case classList_add []
                [JString ''px-4'', JString ''py-2'', JString ''rounded-full'',
                 JString ''text-white'', JString ''font-semibold'', JString ''text-sm'',
                 colorClass] of
           Inl e \<Rightarrow> Inl e
         | Inr cs \<Rightarrow> Inr \<lparr>badge_textContent = text, badge_classList = cs\<rparr>)"

fun types_map :: "type_info list \<Rightarrow> page \<Rightarrow> js_error option \<times> page" where
  "types_map [] p = (None, p)"
| "types_map (typeInfo # rest) p =
     (case type_badge typeInfo of
        Inl e \<Rightarrow> (Some e, p)
      | Inr b \<Rightarrow> types_map rest (p\<lparr>pokemonTypes_children := pokemonTypes_children p @ [b]\<rparr>))"

text \<open>
  \<open>displayPokemon\<close> returns the exception it raises, if any, and the page as it is at
  that moment.
\<close>

definition displayPokemon :: "pokemon \<Rightarrow> page \<Rightarrow> js_error option \<times> page" where
  "displayPokemon data p =
     (let p = hideElement ErrorMessage (hideLoading p);
          p = p\<lparr>pokemonName_textContent := capitalize (data_name data),
                pokemonId_textContent :=
                  CHR ''#'' # padStart 3 (CHR ''0'') (Number_toString (data_id data))\<rparr>;
          p = p\<lparr>pokemonImages_children := []\<rparr>;
          p = foldl (append_image data) p (imageUrls data);
          p = p\<lparr>pokemonHeight_textContent := convertHeight (data_height data),
                pokemonWeight_textContent := convertWeight (data_weight data),
                pokemonExperience_textContent :=
                  (case data_base_experience data of
                     None \<Rightarrow> [] | Some x \<Rightarrow> Number_toString x)\<rparr>;
          p = p\<lparr>pokemonTypes_children := []\<rparr>
      in case types_map (data_types data) p of
           (Some e, p) \<Rightarrow> (Some e, p)
         | (None, p) \<Rightarrow> (None, showElement PokemonCard p))"

section \<open>The lookup\<close>

text \<open>
  What \<open>fetch\<close> does for a URL: the promise rejects with the transport's error, or it
  resolves to a response with a status and the outcome of \<open>response.json()\<close>, which is
  the parser's error or a record. A body that parses is taken to have the shape of a
  record, with the fields \<open>displayPokemon\<close> reads.
\<close>

record response =
  status :: nat
  json :: "js_error + pokemon"

datatype fetch_result = Rejected js_error | Resolved response

type_synonym network = "string \<Rightarrow> fetch_result"

definition ok :: "response \<Rightarrow> bool" where
  "ok r = (200 \<le> status r \<and> status r \<le> 299)"

definition endpoint :: string where
  "endpoint = ''https://pokeapi.co/api/v2/pokemon/''"

definition not_found_message :: string where
  "not_found_message =
     ''Pok'' @ [char_of (0xE9 :: nat)] @ ''mon not found! Please check the name or ID and try again.''"

text \<open>
  Names bound where the handler of \<open>fetchPokemon\<close> runs: the parameters in scope, the
  top-level declarations of the script, and the globals of the browser the script
  uses. Reading any other identifier raises a \<open>ReferenceError\<close>.
\<close>

definition scope :: "string list" where
  "scope =
     [''error'', ''nameOrId'',
      ''pokemonInput'', ''searchBtn'', ''loadingIndicator'', ''errorMessage'', ''errorText'',
      ''pokemonCard'', ''darkModeToggle'', ''pokemonName'', ''pokemonId'', ''pokemonImages'',
      ''pokemonHeight'', ''pokemonWeight'', ''pokemonExperience'', ''pokemonTypes'',
      ''isDarkMode'', ''capitalize'', ''convertHeight'', ''convertWeight'', ''getTypeColor'',
      ''showElement'', ''hideElement'', ''showLoading'', ''hideLoading'', ''showError'',
      ''displayPokemon'', ''fetchPokemon'',
      ''document'', ''window'', ''console'', ''fetch'', ''Error'', ''String'']"

definition read_identifier :: "string \<Rightarrow> js_error option" where
  "read_identifier x =
     (if x \<in> set scope then None
      else Some (JsError ''ReferenceError'' (x @ '' is not defined'')))"

text \<open>
  The part of \<open>fetchPokemon\<close> that runs before the call returns to its caller: up to the
  first \<open>await\<close>, with the request issued.
\<close>

definition fetchPokemon_begin :: "string \<Rightarrow> page \<Rightarrow> page" where
  "fetchPokemon_begin nameOrId p =
     (let p = showLoading p
      in p\<lparr>requests := requests p @ [endpoint @ toLowerCase nameOrId]\<rparr>)"

text \<open>The rest of the \<open>try\<close> block, from the moment \<open>fetch\<close> settles.\<close>

definition try_block :: "fetch_result \<Rightarrow> page \<Rightarrow> js_error option \<times> page" where
  "try_block result p =
     (case result of
        Rejected e \<Rightarrow> (Some e, p)
      | Resolved response \<Rightarrow>
          if \<not> ok response then
            (if status response = 404 then (Some (JsError ''Error'' not_found_message), p)
             else (Some (JsError ''Error''
                           (''HTTP Error: '' @ Number_toString (int (status response)))), p))
          else
            (case json response of
               Inl e \<Rightarrow> (Some e, p)
             | Inr data \<Rightarrow> displayPokemon data p))"

text \<open>The \<open>if\<close> chain of the handler, on the message of the error caught.\<close>

definition classify :: "js_error \<Rightarrow> page \<Rightarrow> page" where
  "classify error p =
     (if includes_str (message error) (''Pok'' @ [char_of (0xE9 :: nat)] @ ''mon not found'')
      then showError (message error) p
      else if includes_str (message error) ''Failed to fetch''
      then showError ''Network error! Please check your internet connection.'' p
      else showError ''Something went wrong! Please try again.'' p)"

text \<open>
  The handler: the statement \<open>s\<close>, then \<open>console.error\<close>, then the chain. An exception
  raised in the handler leaves \<open>fetchPokemon\<close>: its promise rejects with it.
\<close>

definition catch_block :: "js_error \<Rightarrow> page \<Rightarrow> js_error option \<times> page" where
  "catch_block error p =
     (case read_identifier ''s'' of
        Some e \<Rightarrow> (Some e, p)
      | None \<Rightarrow> (None, classify error (p\<lparr>console := console p @ [error]\<rparr>)))"

definition fetchPokemon_settle :: "fetch_result \<Rightarrow> page \<Rightarrow> js_error option \<times> page" where
  "fetchPokemon_settle result p =
     (case try_block result p of
        (None, p) \<Rightarrow> (None, p)
      | (Some error, p) \<Rightarrow> catch_block error p)"

text \<open>
  A whole call, to the moment its promise settles: \<open>None\<close> when it fulfils, the
  exception when it rejects.
\<close>

definition fetchPokemon :: "network \<Rightarrow> string \<Rightarrow> page \<Rightarrow> js_error option \<times> page" where
  "fetchPokemon net nameOrId p =
     fetchPokemon_settle (net (endpoint @ toLowerCase nameOrId)) (fetchPokemon_begin nameOrId p)"

subsection \<open>The listeners\<close>

definition empty_query_message :: string where
  "empty_query_message = ''Please enter a Pok'' @ [char_of (0xE9 :: nat)] @ ''mon name or ID!''"

definition searchBtn_click :: "network \<Rightarrow> page \<Rightarrow> js_error option \<times> page" where
  "searchBtn_click net p =
     (let input = trim (pokemonInput_value p)
      in if input = [] then (None, showError empty_query_message p)
         else fetchPokemon net input p)"

definition pokemonInput_keypress :: "network \<Rightarrow> string \<Rightarrow> page \<Rightarrow> js_error option \<times> page" where
  "pokemonInput_keypress net key p =
     (if key = ''Enter''
      then let input = trim (pokemonInput_value p)
           in if input = [] then (None, showError empty_query_message p)
              else fetchPokemon net input p
      else (None, p))"

definition DOMContentLoaded :: "network \<Rightarrow> page \<Rightarrow> js_error option \<times> page" where
  "DOMContentLoaded net p = fetchPokemon net ''pikachu'' p"

section \<open>Example inputs\<close>

definition example_page :: page where
  "example_page =
     \<lparr>pokemonInput_value = [], searchBtn_disabled = False, searchBtn_textContent = ''Search'',
      hidden = (\<lambda>el. True), errorText_textContent = [],
      pokemonName_textContent = [], pokemonId_textContent = [], pokemonImages_children = [],
      pokemonHeight_textContent = [], pokemonWeight_textContent = [],
      pokemonExperience_textContent = [], pokemonTypes_children = [],
      requests = [], console = []\<rparr>"

definition pikachu :: pokemon where
  "pikachu =
     \<lparr>data_name = ''pikachu'', data_id = 25, data_height = 4, data_weight = 60,
      data_base_experience = Some 112,
      data_sprites =
        \<lparr>front_default = Some ''https://img.example/25.png'', back_default = None,
         front_shiny = None, back_shiny = None\<rparr>,
      data_types = [\<lparr>type_name = ''electric''\<rparr>]\<rparr>"

definition net_ok :: network where
  "net_ok url = Resolved \<lparr>status = 200, json = Inr pikachu\<rparr>"

definition net_404 :: network where
  "net_404 url =
     Resolved \<lparr>status = 404, json = Inl (JsError ''SyntaxError'' ''Unexpected token N in JSON at position 0'')\<rparr>"

definition net_500 :: network where
  "net_500 url =
     Resolved \<lparr>status = 500, json = Inl (JsError ''SyntaxError'' ''Unexpected end of JSON input'')\<rparr>"

definition net_malformed :: network where
  "net_malformed url =
     Resolved \<lparr>status = 200, json = Inl (JsError ''SyntaxError'' ''Unexpected end of JSON input'')\<rparr>"

definition net_offline :: network where
  "net_offline url = Rejected (JsError ''TypeError'' ''Failed to fetch'')"

text \<open>What a rendered page shows of the record.\<close>

definition DisplayModel ::
  "page \<Rightarrow> string \<times> string \<times> string \<times> string \<times> string \<times> image list \<times> badge list" where
  "DisplayModel p =
     (pokemonName_textContent p, pokemonId_textContent p, pokemonHeight_textContent p,
      pokemonWeight_textContent p, pokemonExperience_textContent p,
      pokemonImages_children p, pokemonTypes_children p)"

section \<open>What rendering leaves alone\<close>

lemma types_map_fields:
  "pokemonInput_value (snd (types_map ts p)) = pokemonInput_value p"
  "searchBtn_disabled (snd (types_map ts p)) = searchBtn_disabled p"
  "searchBtn_textContent (snd (types_map ts p)) = searchBtn_textContent p"
  "hidden (snd (types_map ts p)) = hidden p"
  "errorText_textContent (snd (types_map ts p)) = errorText_textContent p"
  "pokemonName_textContent (snd (types_map ts p)) = pokemonName_textContent p"
  "pokemonId_textContent (snd (types_map ts p)) = pokemonId_textContent p"
  "pokemonImages_children (snd (types_map ts p)) = pokemonImages_children p"
  "pokemonHeight_textContent (snd (types_map ts p)) = pokemonHeight_textContent p"
  "pokemonWeight_textContent (snd (types_map ts p)) = pokemonWeight_textContent p"
  "pokemonExperience_textContent (snd (types_map ts p)) = pokemonExperience_textContent p"
  "requests (snd (types_map ts p)) = requests p"
  "console (snd (types_map ts p)) = console p"
  by (induction ts arbitrary: p; simp split: sum.splits)+

lemma append_image_fields:
  "pokemonInput_value (append_image d p s) = pokemonInput_value p"
  "searchBtn_disabled (append_image d p s) = searchBtn_disabled p"
  "searchBtn_textContent (append_image d p s) = searchBtn_textContent p"
  "hidden (append_image d p s) = hidden p"
  "errorText_textContent (append_image d p s) = errorText_textContent p"
  "pokemonName_textContent (append_image d p s) = pokemonName_textContent p"
  "pokemonId_textContent (append_image d p s) = pokemonId_textContent p"
  "pokemonHeight_textContent (append_image d p s) = pokemonHeight_textContent p"
  "pokemonWeight_textContent (append_image d p s) = pokemonWeight_textContent p"
  "pokemonExperience_textContent (append_image d p s) = pokemonExperience_textContent p"
  "pokemonTypes_children (append_image d p s) = pokemonTypes_children p"
  "requests (append_image d p s) = requests p"
  "console (append_image d p s) = console p"
  by (simp_all add: append_image_def split: option.splits)

lemma images_fields:
  "pokemonInput_value (foldl (append_image d) p xs) = pokemonInput_value p"
  "searchBtn_disabled (foldl (append_image d) p xs) = searchBtn_disabled p"
  "searchBtn_textContent (foldl (append_image d) p xs) = searchBtn_textContent p"
  "hidden (foldl (append_image d) p xs) = hidden p"
  "errorText_textContent (foldl (append_image d) p xs) = errorText_textContent p"
  "pokemonName_textContent (foldl (append_image d) p xs) = pokemonName_textContent p"
  "pokemonId_textContent (foldl (append_image d) p xs) = pokemonId_textContent p"
  "pokemonHeight_textContent (foldl (append_image d) p xs) = pokemonHeight_textContent p"
  "pokemonWeight_textContent (foldl (append_image d) p xs) = pokemonWeight_textContent p"
  "pokemonExperience_textContent (foldl (append_image d) p xs) = pokemonExperience_textContent p"
  "pokemonTypes_children (foldl (append_image d) p xs) = pokemonTypes_children p"
  "requests (foldl (append_image d) p xs) = requests p"
  "console (foldl (append_image d) p xs) = console p"
  by (induction xs arbitrary: p; simp add: append_image_fields)+

lemma displayPokemon_alt:
  "displayPokemon data p =
     (let r = types_map (data_types data)
            ((foldl (append_image data)
               ((hideElement ErrorMessage (hideLoading p))
                  \<lparr>pokemonName_textContent := capitalize (data_name data),
                   pokemonId_textContent :=
                     CHR ''#'' # padStart 3 (CHR ''0'') (Number_toString (data_id data)),
                   pokemonImages_children := []\<rparr>)
               (imageUrls data))
              \<lparr>pokemonHeight_textContent := convertHeight (data_height data),
               pokemonWeight_textContent := convertWeight (data_weight data),
               pokemonExperience_textContent :=
                 (case data_base_experience data of None \<Rightarrow> [] | Some x \<Rightarrow> Number_toString x),
               pokemonTypes_children := []\<rparr>)
      in (fst r, if fst r = None then showElement PokemonCard (snd r) else snd r))"
  unfolding displayPokemon_def Let_def
  by (simp split: prod.splits option.splits)

lemma displayPokemon_fields:
  "pokemonInput_value (snd (displayPokemon data p)) = pokemonInput_value p"
  "searchBtn_disabled (snd (displayPokemon data p)) = False"
  "searchBtn_textContent (snd (displayPokemon data p)) = ''Search''"
  "hidden (snd (displayPokemon data p)) LoadingIndicator = True"
  "hidden (snd (displayPokemon data p)) ErrorMessage = True"
  "errorText_textContent (snd (displayPokemon data p)) = errorText_textContent p"
  "pokemonName_textContent (snd (displayPokemon data p)) = capitalize (data_name data)"
  "pokemonId_textContent (snd (displayPokemon data p)) =
     CHR ''#'' # padStart 3 (CHR ''0'') (Number_toString (data_id data))"
  "pokemonHeight_textContent (snd (displayPokemon data p)) = convertHeight (data_height data)"
  "pokemonWeight_textContent (snd (displayPokemon data p)) = convertWeight (data_weight data)"
  "requests (snd (displayPokemon data p)) = requests p"
  "console (snd (displayPokemon data p)) = console p"
  by (simp_all add: displayPokemon_alt Let_def types_map_fields images_fields
        showElement_def hideElement_def hideLoading_def)

section \<open>Images\<close>

lemma images_fold:
  "pokemonImages_children (foldl (append_image d) p xs) =
     pokemonImages_children p @
       [\<lparr>img_src = u, img_alt = data_name d @ '' '' @ l, img_label = l\<rparr>. (Some u, l) \<leftarrow> xs, u \<noteq> []]"
  by (induction xs arbitrary: p) (auto simp: append_image_def split: option.splits)

lemma displayPokemon_images:
  "pokemonImages_children (snd (displayPokemon data p)) =
     [\<lparr>img_src = u, img_alt = data_name data @ '' '' @ l, img_label = l\<rparr>.
        (Some u, l) \<leftarrow> imageUrls data, u \<noteq> []]"
  by (simp add: displayPokemon_alt Let_def types_map_fields images_fold showElement_def)

text \<open>
  C5. The images rendered are the slots front-default, back-default, front-shiny and
  back-shiny, in that order, each present exactly when its URL is a non-empty string and
  labelled \<open>Front\<close>, \<open>Back\<close>, \<open>Shiny Front\<close>, \<open>Shiny Back\<close>; a record with only
  \<open>front_default\<close> present renders exactly one image, the one labelled \<open>Front\<close>.
\<close>

theorem image_list_from_slots:
  "map (\<lambda>i. (img_src i, img_label i)) (pokemonImages_children (snd (displayPokemon data p))) =
     [(u, l). (Some u, l) \<leftarrow>
        [(front_default (data_sprites data), ''Front''),
         (back_default (data_sprites data), ''Back''),
         (front_shiny (data_sprites data), ''Shiny Front''),
         (back_shiny (data_sprites data), ''Shiny Back'')], u \<noteq> []]
   \<and> (\<forall>u. u \<noteq> [] \<and>
          data_sprites data =
            \<lparr>front_default = Some u, back_default = None, front_shiny = None, back_shiny = None\<rparr>
        \<longrightarrow> pokemonImages_children (snd (displayPokemon data p)) =
              [\<lparr>img_src = u, img_alt = data_name data @ '' Front'', img_label = ''Front''\<rparr>])"
  by (auto simp: displayPokemon_images imageUrls_def split: option.splits)

theorem image_list_from_slots_witness:
  "pokemonImages_children (snd (displayPokemon pikachu example_page)) =
     [\<lparr>img_src = ''https://img.example/25.png'', img_alt = ''pikachu Front'', img_label = ''Front''\<rparr>]"
  using image_list_from_slots [of pikachu example_page] by (simp add: pikachu_def)

section \<open>Capitalization\<close>

text \<open>
  C10. \<open>capitalize\<close> of the empty string is the empty string; a record whose name is
  empty renders an empty name, and a category whose label is empty renders a badge with
  an empty text and the default colour class, no exception raised.
\<close>

theorem capitalize_empty:
  "capitalize [] = []
   \<and> (\<forall>data p. data_name data = [] \<longrightarrow> pokemonName_textContent (snd (displayPokemon data p)) = [])
   \<and> type_badge \<lparr>type_name = []\<rparr> =
       Inr \<lparr>badge_textContent = [],
            badge_classList = [''px-4'', ''py-2'', ''rounded-full'', ''text-white'',
                               ''font-semibold'', ''text-sm'', ''bg-gray-400'']\<rparr>"
proof (intro conjI allI impI)
  show c: "capitalize [] = []" by (simp add: capitalize_def toUpperCase_def charAt0_def slice1_def)
  show "pokemonName_textContent (snd (displayPokemon data p)) = []" if "data_name data = []" for data p
    using that c by (simp add: displayPokemon_fields)
  show "type_badge \<lparr>type_name = []\<rparr> =
       Inr \<lparr>badge_textContent = [],
            badge_classList = [''px-4'', ''py-2'', ''rounded-full'', ''text-white'',
                               ''font-semibold'', ''text-sm'', ''bg-gray-400'']\<rparr>"
    by code_simp
qed

theorem capitalize_empty_witness:
  "data_name (pikachu\<lparr>data_name := []\<rparr>) = []
   \<and> pokemonName_textContent (snd (displayPokemon (pikachu\<lparr>data_name := []\<rparr>) example_page)) = []"
  using capitalize_empty by simp

section \<open>Rounding to a double\<close>

text \<open>Rounding to a double moves a positive value by at most its \<open>2^-53\<close>-th part.\<close>

lemma floor_log2_le:
  assumes "0 < x"
  shows "2 powi (floor_log2 x) \<le> x"
proof -
  obtain a b where q: "quotient_of x = (a, b)" by (cases "quotient_of x")
  then have b: "0 < b" by (rule quotient_of_denom_pos)
  have x: "x = of_int a / of_int b" using q by (rule quotient_of_div)
  with assms b have a: "0 < a" by (simp add: zero_less_divide_iff)
  let ?k = "bitlen a - bitlen b"
  show ?thesis
  proof (cases "2 powi ?k \<le> x")
    case True
    then show ?thesis using q by (simp add: floor_log2_def)
  next
    case False
    then have e: "floor_log2 x = ?k - 1" using q by (simp add: floor_log2_def)
    have la: "1 \<le> bitlen a" using a bitlen_eq_zero_iff [of a] bitlen_nonneg [of a] by linarith
    have lb: "0 \<le> bitlen b" by (rule bitlen_nonneg)
    have "(2::int) ^ nat (bitlen a - 1) \<le> a" using bitlen_bounds [OF a] by simp
    then have "(of_int ((2::int) ^ nat (bitlen a - 1)) :: rat) \<le> of_int a" by (simp only: of_int_le_iff)
    then have A: "(2::rat) powi (bitlen a - 1) \<le> of_int a" using la by (simp add: power_int_def)
    have "b < 2 ^ nat (bitlen b)" using bitlen_bounds [OF b] by simp
    then have "(of_int b :: rat) < of_int ((2::int) ^ nat (bitlen b))" by (simp only: of_int_less_iff)
    then have B: "of_int b < (2::rat) powi (bitlen b)" using lb by (simp add: power_int_def)
    have "(2::rat) powi (?k - 1) = 2 powi (bitlen a - 1) / 2 powi (bitlen b)"
      using power_int_diff [of "2::rat" "bitlen a - 1" "bitlen b"] by (simp add: algebra_simps)
    also have "\<dots> \<le> of_int a / 2 powi (bitlen b)"
      using A by (simp add: divide_right_mono)
    also have "\<dots> \<le> of_int a / of_int b"
      using B a b by (simp add: frac_le)
    finally show ?thesis using e x by simp
  qed
qed

lemma floor_log2_less:
  assumes "0 < x"
  shows "x < 2 powi (floor_log2 x + 1)"
proof -
  obtain a b where q: "quotient_of x = (a, b)" by (cases "quotient_of x")
  then have b: "0 < b" by (rule quotient_of_denom_pos)
  have x: "x = of_int a / of_int b" using q by (rule quotient_of_div)
  with assms b have a: "0 < a" by (simp add: zero_less_divide_iff)
  let ?k = "bitlen a - bitlen b"
  show ?thesis
  proof (cases "2 powi ?k \<le> x")
    case False
    then show ?thesis using q by (simp add: floor_log2_def)
  next
    case True
    then have e: "floor_log2 x = ?k" using q by (simp add: floor_log2_def)
    have la: "0 \<le> bitlen a" by (rule bitlen_nonneg)
    have lb: "1 \<le> bitlen b" using b bitlen_eq_zero_iff [of b] bitlen_nonneg [of b] by linarith
    have "a < 2 ^ nat (bitlen a)" using bitlen_bounds [OF a] by simp
    then have "(of_int a :: rat) < of_int ((2::int) ^ nat (bitlen a))" by (simp only: of_int_less_iff)
    then have A: "of_int a < (2::rat) powi (bitlen a)" using la by (simp add: power_int_def)
    have "(2::int) ^ nat (bitlen b - 1) \<le> b" using bitlen_bounds [OF b] by simp
    then have "(of_int ((2::int) ^ nat (bitlen b - 1)) :: rat) \<le> of_int b" by (simp only: of_int_le_iff)
    then have B: "(2::rat) powi (bitlen b - 1) \<le> of_int b" using lb by (simp add: power_int_def)
    have "of_int a / of_int b < (2::rat) powi (bitlen a) / of_int b"
      using A b by (simp add: divide_strict_right_mono)
    also have "\<dots> \<le> 2 powi (bitlen a) / 2 powi (bitlen b - 1)"
      using B by (intro frac_le) simp_all
    also have "\<dots> = 2 powi (?k + 1)"
      using power_int_diff [of "2::rat" "bitlen a" "bitlen b - 1"] by (simp add: algebra_simps)
    finally show ?thesis using e x by simp
  qed
qed

lemma round_half_even_error: "\<bar>of_int (round_half_even y) - y\<bar> \<le> 1 / 2"
proof -
  have "of_int \<lfloor>y\<rfloor> \<le> y" "y < of_int \<lfloor>y\<rfloor> + 1" by linarith+
  then show ?thesis unfolding round_half_even_def Let_def by (auto simp: abs_le_iff)
qed

lemma round_double_error:
  assumes "0 < x"
  shows "\<bar>round_double x - x\<bar> \<le> x / 2 ^ 53"
proof -
  let ?e = "floor_log2 x"
  let ?u = "(2::rat) powi (?e - 52)"
  let ?m = "round_half_even (x / ?u)"
  have u: "0 < ?u" by simp
  have rd: "round_double x = of_int ?m * ?u" using assms by (simp add: round_double_def Let_def)
  have "\<bar>of_int ?m * ?u - x\<bar> = \<bar>of_int ?m - x / ?u\<bar> * ?u"
  proof -
    have "of_int ?m * ?u - x = (of_int ?m - x / ?u) * ?u" using u by (simp add: field_simps)
    then show ?thesis using u by (simp add: abs_mult)
  qed
  also have "\<dots> \<le> (1 / 2) * ?u"
    using round_half_even_error [of "x / ?u"] u by (intro mult_right_mono) simp_all
  also have "\<dots> = 2 powi ?e / 2 ^ 53"
    using power_int_diff [of "2::rat" ?e 53] power_int_diff [of "2::rat" ?e 52] by simp
  also have "\<dots> \<le> x / 2 ^ 53"
    using floor_log2_le [OF assms] by (simp add: divide_right_mono)
  finally show ?thesis using rd by simp
qed

lemma round_double_minus: "round_double (- x) = - round_double x"
  by (simp add: round_double_def Let_def)

lemma round_double_pos:
  assumes "0 < x"
  shows "0 < round_double x"
proof -
  have "x / 2 ^ 53 \<le> x / 2" using assms by (intro divide_left_mono) simp_all
  with round_double_error [OF assms] assms show ?thesis by linarith
qed

text \<open>An integer of magnitude below \<open>2^53\<close> is a double of its own.\<close>

lemma round_half_even_of_int: "round_half_even (of_int z) = z"
  by (simp add: round_half_even_def)

lemma floor_log2_small:
  assumes "0 < x" and "x < 2 ^ 53"
  shows "floor_log2 x \<le> 52"
proof (rule ccontr)
  assume "\<not> floor_log2 x \<le> 52"
  then have "53 \<le> floor_log2 x" by simp
  then have "(2::rat) powi 53 \<le> 2 powi (floor_log2 x)" by (intro power_int_increasing) simp_all
  also have "\<dots> \<le> x" using assms(1) by (rule floor_log2_le)
  finally show False using assms(2) by simp
qed

lemma round_double_of_nat:
  fixes n :: nat
  assumes "n < 2 ^ 53"
  shows "round_double (of_nat n) = of_nat n"
proof (cases "n = 0")
  case True
  then show ?thesis by (simp add: round_double_def)
next
  case False
  define x :: rat where "x = of_nat n"
  have x: "0 < x" using False by (simp add: x_def)
  have "x < of_nat (2 ^ 53)" unfolding x_def using assms by (simp only: of_nat_less_iff)
  then have xb: "x < 2 ^ 53" by simp
  define e where "e = floor_log2 x"
  have e: "e \<le> 52" unfolding e_def using x xb by (rule floor_log2_small)
  define j where "j = nat (52 - e)"
  define u :: rat where "u = 2 powi (e - 52)"
  have "u * 2 powi (int j) = 2 powi (e - 52 + int j)"
    unfolding u_def by (rule power_int_add [symmetric]) simp
  also have "e - 52 + int j = 0" using e by (simp add: j_def)
  finally have uj: "u * 2 ^ j = 1" by simp
  have u0: "u \<noteq> 0" unfolding u_def by simp
  have "x / u = x * 2 ^ j" using uj u0 by (simp add: field_simps)
  also have "\<dots> = of_int (int n * 2 ^ j)" by (simp add: x_def)
  finally have "round_half_even (x / u) = int n * 2 ^ j" by (simp only: round_half_even_of_int)
  then have "round_double x = of_int (int n * 2 ^ j) * u"
    using x by (simp add: round_double_def Let_def e_def u_def)
  also have "\<dots> = x * (u * 2 ^ j)" by (simp add: x_def)
  finally show ?thesis using uj by (simp add: x_def)
qed

lemma Number_of_nat: "n < 2 ^ 53 \<Longrightarrow> Number (int n) = of_nat n"
  using round_double_of_nat [of n] by (simp add: Number_def)

lemma Number_of_int:
  assumes "\<bar>i\<bar> < 2 ^ 53"
  shows "Number i = of_int i"
proof (cases "0 \<le> i")
  case True
  with assms have "nat i < 2 ^ 53" by (simp add: nat_less_iff)
  then have "Number (int (nat i)) = of_nat (nat i)" by (rule Number_of_nat)
  with True show ?thesis by simp
next
  case False
  define n where "n = nat (- i)"
  have i: "i = - int n" using False by (simp add: n_def)
  have "n < 2 ^ 53" using assms False by (simp add: n_def nat_less_iff)
  then have "round_double (of_nat n) = of_nat n" by (rule round_double_of_nat)
  then show ?thesis unfolding Number_def i by (simp add: round_double_minus)
qed

lemma Number_2_53: "Number 9007199254740992 = 9007199254740992"
  unfolding Number_def by code_simp

section \<open>Identifier\<close>

lemma decimal_nonempty: "decimal n \<noteq> []"
  by (subst decimal.simps) simp

lemma decimal_lt_10: "n < 10 \<Longrightarrow> decimal n = [digit_char n]"
  by (subst decimal.simps) simp

lemma decimal_ge_10: "10 \<le> n \<Longrightarrow> decimal n = decimal (n div 10) @ [digit_char (n mod 10)]"
  by (subst decimal.simps) simp

lemma decimal_lt_100: "10 \<le> n \<Longrightarrow> n < 100 \<Longrightarrow> decimal n = [digit_char (n div 10), digit_char (n mod 10)]"
  by (simp add: decimal_ge_10 decimal_lt_10)

lemma decimal_lt_1000:
  "100 \<le> n \<Longrightarrow> n < 1000 \<Longrightarrow>
     decimal n = [digit_char (n div 100), digit_char (n div 10 mod 10), digit_char (n mod 10)]"
proof -
  assume a: "100 \<le> n" "n < 1000"
  then have "10 \<le> n div 10" "n div 10 < 100" by auto
  then have "decimal (n div 10) = [digit_char (n div 10 div 10), digit_char (n div 10 mod 10)]"
    by (rule decimal_lt_100)
  moreover have "n div 10 div 10 = n div 100" by (simp add: div_mult2_eq[symmetric])
  ultimately show ?thesis using a by (simp add: decimal_ge_10)
qed

lemma decimal_ge_1000: "1000 \<le> n \<Longrightarrow> 4 \<le> length (decimal n)"
proof -
  assume a: "1000 \<le> n"
  then have b: "100 \<le> n div 10" by auto
  then have c: "10 \<le> n div 10 div 10" by auto
  have "length (decimal (n div 10 div 10 div 10)) \<ge> 1"
    using decimal_nonempty[of "n div 10 div 10 div 10"] by (cases "decimal (n div 10 div 10 div 10)") auto
  then show ?thesis using a b c
    by (simp add: decimal_ge_10[of n] decimal_ge_10[of "n div 10"] decimal_ge_10[of "n div 10 div 10"])
qed

text \<open>Up to \<open>2^53\<close> the text of the Number of an integer is its decimal numeral.\<close>

lemma Number_toString_nat:
  assumes "0 \<le> i" and "i \<le> 2 ^ 53"
  shows "Number_toString i = decimal (nat i)"
proof -
  have x: "Number i = of_nat (nat i)"
  proof (cases "i = 2 ^ 53")
    case True
    then show ?thesis using Number_2_53 by simp
  next
    case False
    with assms have "nat i < 2 ^ 53" by (simp add: nat_less_iff)
    then have "Number (int (nat i)) = of_nat (nat i)" by (rule Number_of_nat)
    then show ?thesis using assms(1) by simp
  qed
  have m: "nat \<lfloor>\<bar>Number i\<bar>\<rfloor> = nat i" unfolding x by simp
  have le: "nat i \<le> 2 ^ 53" using assms by (simp add: nat_le_iff)
  have "\<not> Number i < 0" unfolding x by simp
  then show ?thesis
    unfolding Number_toString_def Let_def m using le by simp
qed

text \<open>
  C8, as the code has it. For a non-negative identifier up to \<open>2^53\<close>, the range in
  which every integer is a double of its own, the identifier shown is \<open>#\<close> followed by
  the decimal numeral left-padded with \<open>0\<close> to width 3: three digits below 1000, the
  numeral itself, untruncated, from 1000 on. So 25 gives \<open>#025\<close> and 1200 gives
  \<open>#1200\<close>.
\<close>

theorem identifier_padded:
  assumes "0 \<le> data_id data" and "data_id data \<le> 2 ^ 53"
  shows "pokemonId_textContent (snd (displayPokemon data p)) =
           CHR ''#'' # replicate (3 - length (decimal (nat (data_id data)))) (CHR ''0'')
             @ decimal (nat (data_id data))
         \<and> (data_id data < 1000 \<longrightarrow>
              pokemonId_textContent (snd (displayPokemon data p)) =
                [CHR ''#'', digit_char (nat (data_id data) div 100),
                 digit_char (nat (data_id data) div 10 mod 10),
                 digit_char (nat (data_id data) mod 10)])
         \<and> (1000 \<le> data_id data \<longrightarrow>
              pokemonId_textContent (snd (displayPokemon data p)) =
                CHR ''#'' # decimal (nat (data_id data)))"
proof -
  let ?n = "nat (data_id data)"
  have t: "pokemonId_textContent (snd (displayPokemon data p)) =
      CHR ''#'' # replicate (3 - length (decimal ?n)) (CHR ''0'') @ decimal ?n"
    by (simp add: displayPokemon_fields padStart_def Number_toString_nat [OF assms])
  have small: "replicate (3 - length (decimal ?n)) (CHR ''0'') @ decimal ?n =
     [digit_char (?n div 100), digit_char (?n div 10 mod 10), digit_char (?n mod 10)]"
    if "?n < 1000"
  proof -
    consider "?n < 10" | "10 \<le> ?n" "?n < 100" | "100 \<le> ?n" using that by linarith
    then show ?thesis
    proof cases
      case 1
      then show ?thesis by (simp add: decimal_lt_10 digit_char_def numeral_3_eq_3)
    next
      case 2
      then show ?thesis by (simp add: decimal_lt_100 digit_char_def)
    next
      case 3
      with that show ?thesis by (simp add: decimal_lt_1000)
    qed
  qed
  have big: "replicate (3 - length (decimal ?n)) (CHR ''0'') @ decimal ?n = decimal ?n"
    if "1000 \<le> ?n"
    using decimal_ge_1000[OF that] by simp
  show ?thesis using t small big assms by auto
qed

theorem identifier_padded_witness:
  "(0::int) \<le> data_id pikachu \<and> data_id pikachu \<le> 2 ^ 53
   \<and> pokemonId_textContent (snd (displayPokemon pikachu example_page)) = ''#025''
   \<and> pokemonId_textContent (snd (displayPokemon (pikachu\<lparr>data_id := 1200\<rparr>) example_page)) = ''#1200''"
proof -
  have a: "(0::int) \<le> data_id pikachu" "data_id pikachu \<le> 2 ^ 53" by (simp_all add: pikachu_def)
  have b: "(0::int) \<le> data_id (pikachu\<lparr>data_id := 1200\<rparr>)" "data_id (pikachu\<lparr>data_id := 1200\<rparr>) \<le> 2 ^ 53"
    by simp_all
  have d: "decimal 1200 = ''1200''" "decimal 25 = ''25''" by code_simp+
  have e: "digit_char 0 = CHR ''0''" "digit_char 2 = CHR ''2''" "digit_char 5 = CHR ''5''" by code_simp+
  show ?thesis
    using identifier_padded [OF a, of example_page] identifier_padded [OF b, of example_page] a d e
    by (simp add: pikachu_def)
qed

text \<open>
  C8 as stated, for every non-negative integer, fails. The identifier
  \<open>9007199254740993\<close> is not a double: its Number is \<open>9007199254740992\<close> and that is
  what is shown. The identifier \<open>10^21\<close> is shown in exponent notation.
\<close>

lemma Number_2_53_1: "Number 9007199254740993 = 9007199254740992"
  unfolding Number_def by code_simp


lemma Number_10_21: "Number 1000000000000000000000 = 1000000000000000000000"
  unfolding Number_def by code_simp

lemma decimal_10_21: "decimal 1000000000000000000000 = ''1000000000000000000000''"
  by (simp add: decimal.simps digit_char_def)

lemma length_10_21: "length (decimal 1000000000000000000000) = 22"
  unfolding decimal_10_21 by simp

lemma candidates_10_21: "candidates 1000000000000000000000 1 = [(22, 1, 1)]"
proof -
  have r: "round_double 1000000000000000000000 = 1000000000000000000000"
    "round_double 2000000000000000000000 \<noteq> 1000000000000000000000"
    "round_double 10000000000000000000000 \<noteq> 1000000000000000000000"
    by code_simp+
  show ?thesis
    unfolding candidates_def length_10_21 using r by simp
qed

lemma digits_of_10_21: "digits_of 1000000000000000000000 = (22, 1, 1)"
proof -
  have u: "[1 ..< Suc 22] = 1 # [Suc 1 ..< Suc 22]" by (rule upt_conv_Cons) simp
  have "shortest 1000000000000000000000 [1 ..< Suc 22] = [(22, 1, 1)]"
    unfolding u by (simp only: shortest.simps candidates_10_21) simp
  then show ?thesis
    unfolding digits_of_def length_10_21 by simp
qed

lemma Number_toString_10_21: "Number_toString 1000000000000000000000 = ''1e+21''"
proof -
  have d: "decimal (Suc 0) = ''1''" "decimal 21 = ''21''" by code_simp+
  show ?thesis
    unfolding Number_toString_def Let_def Number_10_21
    by (simp add: digits_of_10_21 d)
qed

lemma Number_toString_2_53_1: "Number_toString 9007199254740993 = ''9007199254740992''"
proof -
  have d: "decimal 9007199254740992 = ''9007199254740992''"
    by (simp add: decimal.simps digit_char_def)
  show ?thesis
    unfolding Number_toString_def Let_def Number_2_53_1 by (simp add: d)
qed

theorem identifier_counterexample:
  "pokemonId_textContent (snd (displayPokemon (pikachu\<lparr>data_id := 9007199254740993\<rparr>) example_page)) =
     ''#9007199254740992''
   \<and> decimal 9007199254740993 = ''9007199254740993''
   \<and> pokemonId_textContent
       (snd (displayPokemon (pikachu\<lparr>data_id := 1000000000000000000000\<rparr>) example_page)) =
     ''#1e+21''
   \<and> decimal 1000000000000000000000 = ''1000000000000000000000''"
proof -
  have d: "decimal 9007199254740993 = ''9007199254740993''"
    by (simp add: decimal.simps digit_char_def)
  show ?thesis
    by (simp add: displayPokemon_fields padStart_def Number_toString_10_21 Number_toString_2_53_1
          d decimal_10_21)
qed

section \<open>The handler of \<open>fetchPokemon\<close>\<close>

text \<open>
  The identifier \<open>s\<close> is bound nowhere, so the first statement of the handler raises
  and nothing after it runs.
\<close>

lemma read_s: "read_identifier ''s'' = Some (JsError ''ReferenceError'' ''s is not defined'')"
  by code_simp

lemma catch_block_raises:
  "catch_block error p = (Some (JsError ''ReferenceError'' ''s is not defined''), p)"
  by (simp add: catch_block_def read_s)

lemma try_block_requests: "requests (snd (try_block result p)) = requests p"
  by (simp add: try_block_def displayPokemon_fields split: fetch_result.splits sum.splits)

lemma fetchPokemon_settle_requests: "requests (snd (fetchPokemon_settle result p)) = requests p"
proof (cases "try_block result p")
  case (Pair r q)
  with try_block_requests[of result p] show ?thesis
    by (cases r) (simp_all add: fetchPokemon_settle_def catch_block_raises)
qed

text \<open>Whatever the \<open>try\<close> block raises, the call ends with the handler's own exception.\<close>

lemma failure_rejects:
  assumes "fst (try_block result p) \<noteq> None"
  shows "fetchPokemon_settle result p =
           (Some (JsError ''ReferenceError'' ''s is not defined''), snd (try_block result p))"
proof (cases "try_block result p")
  case (Pair r q)
  with assms show ?thesis
    by (cases r) (simp_all add: fetchPokemon_settle_def catch_block_raises)
qed

lemma fetchPokemon_requests:
  "requests (snd (fetchPokemon net nameOrId p)) = requests p @ [endpoint @ toLowerCase nameOrId]"
  by (simp add: fetchPokemon_def Let_def fetchPokemon_settle_requests fetchPokemon_begin_def
        showLoading_def showElement_def hideElement_def)

section \<open>Validation and the request\<close>

text \<open>
  C4. When the trimmed input is empty, the click listener and the Enter-key listener
  show the enter-a-name message and issue no request; when it is not empty, each issues
  exactly one request, to the endpoint followed by the trimmed input in lower case.
\<close>

theorem query_validation:
  "(trim (pokemonInput_value p) = [] \<longrightarrow>
      searchBtn_click net p = (None, showError empty_query_message p)
      \<and> pokemonInput_keypress net ''Enter'' p = (None, showError empty_query_message p)
      \<and> errorText_textContent (showError empty_query_message p) = empty_query_message
      \<and> \<not> hidden (showError empty_query_message p) ErrorMessage
      \<and> requests (showError empty_query_message p) = requests p)
   \<and> (trim (pokemonInput_value p) \<noteq> [] \<longrightarrow>
        requests (snd (searchBtn_click net p)) =
          requests p @ [endpoint @ toLowerCase (trim (pokemonInput_value p))]
        \<and> requests (snd (pokemonInput_keypress net ''Enter'' p)) =
          requests p @ [endpoint @ toLowerCase (trim (pokemonInput_value p))])"
  by (simp add: searchBtn_click_def pokemonInput_keypress_def Let_def fetchPokemon_requests
        showError_def showElement_def hideElement_def hideLoading_def)

theorem query_validation_witness:
  "trim (pokemonInput_value (example_page\<lparr>pokemonInput_value := ''   ''\<rparr>)) = []
   \<and> fst (searchBtn_click net_ok (example_page\<lparr>pokemonInput_value := ''   ''\<rparr>)) = None
   \<and> requests (snd (searchBtn_click net_ok (example_page\<lparr>pokemonInput_value := ''   ''\<rparr>))) = []
   \<and> trim (pokemonInput_value (example_page\<lparr>pokemonInput_value := '' Pikachu ''\<rparr>)) \<noteq> []
   \<and> requests (snd (searchBtn_click net_ok (example_page\<lparr>pokemonInput_value := '' Pikachu ''\<rparr>))) =
        [''https://pokeapi.co/api/v2/pokemon/pikachu'']
   \<and> trim (pokemonInput_value
              (example_page\<lparr>pokemonInput_value := [char_of (201 :: nat)] @ ''VOLI''\<rparr>)) \<noteq> []
   \<and> requests (snd (searchBtn_click net_ok
                       (example_page\<lparr>pokemonInput_value := [char_of (201 :: nat)] @ ''VOLI''\<rparr>))) =
        [''https://pokeapi.co/api/v2/pokemon/'' @ [char_of (233 :: nat)] @ ''voli'']"
proof -
  have a: "trim (pokemonInput_value (example_page\<lparr>pokemonInput_value := ''   ''\<rparr>)) = []"
    by (simp add: trim_def is_white_space_def)
  have b: "trim (pokemonInput_value (example_page\<lparr>pokemonInput_value := '' Pikachu ''\<rparr>)) = ''Pikachu''"
    by (simp add: trim_def is_white_space_def)
  have c: "endpoint @ toLowerCase ''Pikachu'' = ''https://pokeapi.co/api/v2/pokemon/pikachu''"
    by code_simp
  have d: "requests example_page = []" by (simp add: example_page_def)
  have e: "trim (pokemonInput_value (example_page\<lparr>pokemonInput_value := [char_of (201 :: nat)] @ ''VOLI''\<rparr>)) =
      [char_of (201 :: nat)] @ ''VOLI''"
    by (simp add: trim_def is_white_space_def)
  have f: "endpoint @ toLowerCase ([char_of (201 :: nat)] @ ''VOLI'') =
      ''https://pokeapi.co/api/v2/pokemon/'' @ [char_of (233 :: nat)] @ ''voli''"
    by code_simp
  have g: "[char_of (201 :: nat)] @ ''VOLI'' \<noteq> []" by simp
  show ?thesis
    using query_validation [of "example_page\<lparr>pokemonInput_value := ''   ''\<rparr>" net_ok]
      query_validation [of "example_page\<lparr>pokemonInput_value := '' Pikachu ''\<rparr>" net_ok]
      query_validation [of "example_page\<lparr>pokemonInput_value := [char_of (201 :: nat)] @ ''VOLI''\<rparr>" net_ok]
      a b c d e f g
    by simp
qed

section \<open>Failures\<close>

text \<open>
  C1 (the code departs from it). On a 404 response the promise of \<open>fetchPokemon\<close>
  rejects with the \<open>ReferenceError\<close> raised by the handler; the page is left as it was
  when the request was issued: no error message shown, the search button disabled.
\<close>

theorem failure_escapes_lookup:
  "fetchPokemon net_404 nameOrId p =
     (Some (JsError ''ReferenceError'' ''s is not defined''), fetchPokemon_begin nameOrId p)
   \<and> hidden (snd (fetchPokemon net_404 nameOrId p)) ErrorMessage
   \<and> searchBtn_disabled (snd (fetchPokemon net_404 nameOrId p))"
  by (simp add: fetchPokemon_def Let_def fetchPokemon_settle_def try_block_def net_404_def ok_def
        catch_block_raises fetchPokemon_begin_def showLoading_def showElement_def hideElement_def)

section \<open>Rendering depends on the record only\<close>

lemma types_map_fst: "fst (types_map ts p) = fst (types_map ts q)"
proof (induction ts arbitrary: p q)
  case Nil
  show ?case by simp
next
  case (Cons t ts)
  show ?case
  proof (cases "type_badge t")
    case (Inl e)
    then show ?thesis by simp
  next
    case (Inr b)
    then show ?thesis
      using Cons.IH [of "p\<lparr>pokemonTypes_children := pokemonTypes_children p @ [b]\<rparr>"
                        "q\<lparr>pokemonTypes_children := pokemonTypes_children q @ [b]\<rparr>"]
      by simp
  qed
qed

lemma types_map_children:
  "pokemonTypes_children p = pokemonTypes_children q \<Longrightarrow>
     pokemonTypes_children (snd (types_map ts p)) = pokemonTypes_children (snd (types_map ts q))"
proof (induction ts arbitrary: p q)
  case Nil
  then show ?case by simp
next
  case (Cons t ts)
  show ?case
  proof (cases "type_badge t")
    case (Inl e)
    with Cons.prems show ?thesis by simp
  next
    case (Inr b)
    then show ?thesis
      using Cons.IH [of "p\<lparr>pokemonTypes_children := pokemonTypes_children p @ [b]\<rparr>"
                        "q\<lparr>pokemonTypes_children := pokemonTypes_children q @ [b]\<rparr>"] Cons.prems
      by simp
  qed
qed

lemma displayPokemon_fst: "fst (displayPokemon data p) = fst (types_map (data_types data) q)"
  unfolding displayPokemon_alt Let_def fst_conv by (rule types_map_fst)

lemma displayPokemon_pikachu: "fst (displayPokemon pikachu p) = None"
proof -
  have "fst (types_map (data_types pikachu) example_page) = None" by code_simp
  then show ?thesis using displayPokemon_fst [of pikachu p example_page] by simp
qed

section \<open>The busy flag\<close>

text \<open>
  C2 (the code departs from it). The search button is disabled as soon as the call has
  issued its request and enabled again after a successful lookup; after a transport
  failure it stays disabled and the loading indicator stays visible.
\<close>

theorem busy_flag_stuck:
  "searchBtn_disabled (fetchPokemon_begin nameOrId p)
   \<and> \<not> searchBtn_disabled (snd (fetchPokemon net_ok nameOrId p))
   \<and> searchBtn_disabled (snd (fetchPokemon net_offline nameOrId p))
   \<and> \<not> hidden (snd (fetchPokemon net_offline nameOrId p)) LoadingIndicator"
proof -
  have a: "searchBtn_disabled (fetchPokemon_begin nameOrId p)"
    by (simp add: fetchPokemon_begin_def showLoading_def showElement_def hideElement_def)
  have "fetchPokemon net_ok nameOrId p = displayPokemon pikachu (fetchPokemon_begin nameOrId p)"
    using displayPokemon_pikachu [of "fetchPokemon_begin nameOrId p"]
    by (cases "displayPokemon pikachu (fetchPokemon_begin nameOrId p)")
       (simp add: fetchPokemon_def Let_def fetchPokemon_settle_def try_block_def net_ok_def ok_def)
  then have b: "\<not> searchBtn_disabled (snd (fetchPokemon net_ok nameOrId p))"
    by (simp add: displayPokemon_fields)
  have "fetchPokemon net_offline nameOrId p =
      (Some (JsError ''ReferenceError'' ''s is not defined''), fetchPokemon_begin nameOrId p)"
    by (simp add: fetchPokemon_def Let_def fetchPokemon_settle_def try_block_def net_offline_def
          catch_block_raises)
  then have c: "searchBtn_disabled (snd (fetchPokemon net_offline nameOrId p))"
      "\<not> hidden (snd (fetchPokemon net_offline nameOrId p)) LoadingIndicator"
    by (simp_all add: fetchPokemon_begin_def showLoading_def showElement_def hideElement_def)
  from a b c show ?thesis by simp
qed

section \<open>Classification of failures\<close>

text \<open>
  C3 (the code departs from it). The \<open>try\<close> block tells the four failures apart: it
  raises the transport's own error when the request does not complete, an error with
  the not-found message on status 404, an error with the message \<open>HTTP Error: 500\<close> on
  status 500, and the parser's error when the body of a successful response does not
  parse. The lookup itself yields none of them: in each case its promise rejects with
  the \<open>ReferenceError\<close> of the handler, on the page as it was when the request was
  issued.
\<close>

theorem classification_lost:
  "try_block (net_offline url) p = (Some (JsError ''TypeError'' ''Failed to fetch''), p)
   \<and> try_block (net_404 url) p = (Some (JsError ''Error'' not_found_message), p)
   \<and> try_block (net_500 url) p = (Some (JsError ''Error'' ''HTTP Error: 500''), p)
   \<and> try_block (net_malformed url) p =
       (Some (JsError ''SyntaxError'' ''Unexpected end of JSON input''), p)
   \<and> fetchPokemon net_offline nameOrId p =
       (Some (JsError ''ReferenceError'' ''s is not defined''), fetchPokemon_begin nameOrId p)
   \<and> fetchPokemon net_404 nameOrId p =
       (Some (JsError ''ReferenceError'' ''s is not defined''), fetchPokemon_begin nameOrId p)
   \<and> fetchPokemon net_500 nameOrId p =
       (Some (JsError ''ReferenceError'' ''s is not defined''), fetchPokemon_begin nameOrId p)
   \<and> fetchPokemon net_malformed nameOrId p =
       (Some (JsError ''ReferenceError'' ''s is not defined''), fetchPokemon_begin nameOrId p)"
proof -
  have s: "Number_toString (int 500) = ''500''"
  proof -
    have "decimal 500 = ''500''" by (simp add: decimal.simps digit_char_def)
    then show ?thesis using Number_toString_nat [of 500] by simp
  qed
  have t: "try_block (net_offline url) p = (Some (JsError ''TypeError'' ''Failed to fetch''), p)"
    "try_block (net_404 url) p = (Some (JsError ''Error'' not_found_message), p)"
    "try_block (net_500 url) p = (Some (JsError ''Error'' ''HTTP Error: 500''), p)"
    "try_block (net_malformed url) p =
       (Some (JsError ''SyntaxError'' ''Unexpected end of JSON input''), p)"
    for url p
    using s
    by (simp_all add: try_block_def net_offline_def net_404_def net_500_def net_malformed_def ok_def)
  have f: "fetchPokemon net nameOrId p =
       (Some (JsError ''ReferenceError'' ''s is not defined''), fetchPokemon_begin nameOrId p)"
    if "try_block (net (endpoint @ toLowerCase nameOrId)) (fetchPokemon_begin nameOrId p) =
          (Some e, fetchPokemon_begin nameOrId p)" for net e
    using that by (simp add: fetchPokemon_def fetchPokemon_settle_def catch_block_raises)
  show ?thesis
    using t f [OF t(1)] f [OF t(2)] f [OF t(3)] f [OF t(4)] by simp
qed

section \<open>Categories\<close>

text \<open>
  C6 (the code departs from it). The name \<open>constructor\<close> is not a key of the colour
  table, yet \<open>getTypeColor\<close> does not give the default class for it: the lookup finds
  the function inherited from \<open>Object.prototype\<close>, \<open>classList.add\<close> rejects its text,
  and rendering the record stops with that exception.
\<close>

theorem inherited_name_not_default:
  "map_of typeColors ''constructor'' = None
   \<and> getTypeColor ''constructor'' = JObject ''constructor''
   \<and> type_badge \<lparr>type_name = ''constructor''\<rparr> =
       Inl (JsError ''InvalidCharacterError''
              ''The token provided contains HTML space characters, which are not valid in tokens.'')
   \<and> fst (displayPokemon (pikachu\<lparr>data_types := [\<lparr>type_name = ''constructor''\<rparr>]\<rparr>) example_page) =
       Some (JsError ''InvalidCharacterError''
              ''The token provided contains HTML space characters, which are not valid in tokens.'')"
proof -
  have a: "map_of typeColors ''constructor'' = None" by code_simp
  have b: "getTypeColor ''constructor'' = JObject ''constructor''" by code_simp
  have c: "type_badge \<lparr>type_name = ''constructor''\<rparr> =
       Inl (JsError ''InvalidCharacterError''
              ''The token provided contains HTML space characters, which are not valid in tokens.'')"
    by code_simp
  have "fst (displayPokemon (pikachu\<lparr>data_types := [\<lparr>type_name = ''constructor''\<rparr>]\<rparr>) example_page) =
      fst (types_map [\<lparr>type_name = ''constructor''\<rparr>] example_page)"
    using displayPokemon_fst [of "pikachu\<lparr>data_types := [\<lparr>type_name = ''constructor''\<rparr>]\<rparr>"
             example_page example_page]
    by simp
  with a b c show ?thesis by simp
qed

text \<open>
  For names that \<open>Object.prototype\<close> does not define, the categories are rendered as
  C6 says: one badge per entry, in the order of the source and without dropping
  duplicates, its text the capitalized name, its last class the one the table gives for
  the name or else the default.
\<close>

lemma typeColors_value:
  assumes "map_of typeColors name = Some c"
  shows "c \<in> set (map snd typeColors)"
proof -
  from assms have "(name, c) \<in> set typeColors" by (rule map_of_SomeD)
  then show ?thesis by force
qed

lemma validate_tokens_append:
  "validate_tokens (xs @ ys) =
     (case validate_tokens xs of Some e \<Rightarrow> Some e | None \<Rightarrow> validate_tokens ys)"
  by (induction xs) simp_all

lemma fixed_classes_valid:
  "validate_tokens
     [''px-4'', ''py-2'', ''rounded-full'', ''text-white'', ''font-semibold'', ''text-sm''] = None"
  by code_simp

lemma typeColors_classes:
  "\<forall>c \<in> set (''bg-gray-400'' # map snd typeColors).
     c \<noteq> [] \<and> (\<forall>ch \<in> set c. \<not> is_ascii_whitespace ch) \<and>
     c \<notin> set [''px-4'', ''py-2'', ''rounded-full'', ''text-white'', ''font-semibold'', ''text-sm'']"
  by code_simp

lemma color_class_added:
  assumes "c \<in> set (map snd typeColors) \<or> c = ''bg-gray-400''"
  shows "c \<noteq> [] \<and>
         classList_add []
           [JString ''px-4'', JString ''py-2'', JString ''rounded-full'', JString ''text-white'',
            JString ''font-semibold'', JString ''text-sm'', JString c] =
         Inr [''px-4'', ''py-2'', ''rounded-full'', ''text-white'', ''font-semibold'', ''text-sm'', c]"
proof -
  let ?fixed = "[''px-4'', ''py-2'', ''rounded-full'', ''text-white'', ''font-semibold'', ''text-sm'']"
  from assms have "c \<in> set (''bg-gray-400'' # map snd typeColors)" by auto
  with typeColors_classes have c: "c \<noteq> []" "\<forall>ch \<in> set c. \<not> is_ascii_whitespace ch" "c \<notin> set ?fixed"
    by blast+
  have v: "validate_tokens (?fixed @ [c]) = None"
    unfolding validate_tokens_append fixed_classes_valid using c(1,2) by simp
  have f: "foldl (\<lambda>cs t. if t \<in> set cs then cs else cs @ [t]) [] (?fixed @ [c]) = ?fixed @ [c]"
    using c(3) by simp
  have "classList_add [] (map JString (?fixed @ [c])) = Inr (?fixed @ [c])"
    unfolding classList_add_def Let_def using v f
    by (simp only: map_map comp_def to_DOMString_def js_value.case map_ident option.case)
  then show ?thesis using c(1) by simp
qed

lemma getTypeColor_string:
  assumes "name \<notin> set Object_prototype"
  shows "getTypeColor name =
           JString (case map_of typeColors name of Some c \<Rightarrow> c | None \<Rightarrow> ''bg-gray-400'')"
proof (cases "map_of typeColors name")
  case None
  with assms show ?thesis by (simp add: getTypeColor_def get_property_def or_else_def)
next
  case (Some c)
  then have "c \<noteq> []" using color_class_added [of c] typeColors_value by blast
  with Some show ?thesis by (simp add: getTypeColor_def get_property_def or_else_def)
qed

lemma type_badge_string:
  assumes "type_name t \<notin> set Object_prototype"
  shows "type_badge t =
           Inr \<lparr>badge_textContent = capitalize (type_name t),
                badge_classList =
                  [''px-4'', ''py-2'', ''rounded-full'', ''text-white'', ''font-semibold'', ''text-sm'',
                   case map_of typeColors (type_name t) of Some c \<Rightarrow> c | None \<Rightarrow> ''bg-gray-400'']\<rparr>"
proof -
  let ?c = "case map_of typeColors (type_name t) of Some c \<Rightarrow> c | None \<Rightarrow> ''bg-gray-400''"
  have "?c \<in> set (map snd typeColors) \<or> ?c = ''bg-gray-400''"
    using typeColors_value [of "type_name t"] by (cases "map_of typeColors (type_name t)") simp_all
  then have "classList_add []
           [JString ''px-4'', JString ''py-2'', JString ''rounded-full'', JString ''text-white'',
            JString ''font-semibold'', JString ''text-sm'', JString ?c] =
         Inr [''px-4'', ''py-2'', ''rounded-full'', ''text-white'', ''font-semibold'', ''text-sm'', ?c]"
    using color_class_added by blast
  then show ?thesis
    unfolding type_badge_def Let_def getTypeColor_string [OF assms] by (simp only: sum.case)
qed

lemma types_map_badges:
  assumes "\<forall>t \<in> set ts. type_name t \<notin> set Object_prototype"
  shows "fst (types_map ts p) = None \<and>
         pokemonTypes_children (snd (types_map ts p)) =
           pokemonTypes_children p @
           map (\<lambda>t. \<lparr>badge_textContent = capitalize (type_name t),
                      badge_classList =
                        [''px-4'', ''py-2'', ''rounded-full'', ''text-white'', ''font-semibold'',
                         ''text-sm'',
                         case map_of typeColors (type_name t) of
                           Some c \<Rightarrow> c | None \<Rightarrow> ''bg-gray-400'']\<rparr>) ts"
  using assms
proof (induction ts arbitrary: p)
  case Nil
  show ?case by simp
next
  case (Cons t ts)
  from Cons.prems have t: "type_name t \<notin> set Object_prototype"
    and ts: "\<forall>t \<in> set ts. type_name t \<notin> set Object_prototype" by simp_all
  show ?case
    using Cons.IH [OF ts] by (simp add: type_badge_string [OF t])
qed

lemma category_badges:
  assumes "\<forall>t \<in> set (data_types data). type_name t \<notin> set Object_prototype"
  shows "fst (displayPokemon data p) = None \<and>
         pokemonTypes_children (snd (displayPokemon data p)) =
           map (\<lambda>t. \<lparr>badge_textContent = capitalize (type_name t),
                      badge_classList =
                        [''px-4'', ''py-2'', ''rounded-full'', ''text-white'', ''font-semibold'',
                         ''text-sm'',
                         case map_of typeColors (type_name t) of
                           Some c \<Rightarrow> c | None \<Rightarrow> ''bg-gray-400'']\<rparr>) (data_types data)"
  unfolding displayPokemon_alt Let_def
  by (simp add: types_map_badges [OF assms] showElement_def)

section \<open>Repeated lookups\<close>

lemma displayPokemon_experience:
  "pokemonExperience_textContent (snd (displayPokemon data p)) =
     (case data_base_experience data of None \<Rightarrow> [] | Some x \<Rightarrow> Number_toString x)"
  by (simp add: displayPokemon_alt Let_def types_map_fields showElement_def)

lemma displayPokemon_types:
  "pokemonTypes_children (snd (displayPokemon data p)) =
   pokemonTypes_children (snd (displayPokemon data q))"
proof -
  let ?P = "\<lambda>p. (foldl (append_image data)
               ((hideElement ErrorMessage (hideLoading p))
                  \<lparr>pokemonName_textContent := capitalize (data_name data),
                   pokemonId_textContent :=
                     CHR ''#'' # padStart 3 (CHR ''0'') (Number_toString (data_id data)),
                   pokemonImages_children := []\<rparr>)
               (imageUrls data))
              \<lparr>pokemonHeight_textContent := convertHeight (data_height data),
               pokemonWeight_textContent := convertWeight (data_weight data),
               pokemonExperience_textContent :=
                 (case data_base_experience data of None \<Rightarrow> [] | Some x \<Rightarrow> Number_toString x),
               pokemonTypes_children := []\<rparr>"
  have f: "fst (types_map (data_types data) (?P p)) = fst (types_map (data_types data) (?P q))"
    by (rule types_map_fst)
  have c: "pokemonTypes_children (snd (types_map (data_types data) (?P p))) =
           pokemonTypes_children (snd (types_map (data_types data) (?P q)))"
    by (rule types_map_children) simp
  show ?thesis
    unfolding displayPokemon_alt Let_def snd_conv using f c by (simp add: showElement_def)
qed

lemma displayPokemon_model:
  "DisplayModel (snd (displayPokemon data p)) = DisplayModel (snd (displayPokemon data q))"
  unfolding DisplayModel_def
  by (simp only: displayPokemon_fields displayPokemon_experience displayPokemon_images
        displayPokemon_types [of data p q])

lemma fetchPokemon_success:
  assumes "fetchPokemon net nameOrId p = (None, p')"
    and "net (endpoint @ toLowerCase nameOrId) = Resolved r"
    and "json r = Inr d"
  shows "p' = snd (displayPokemon d (fetchPokemon_begin nameOrId p))"
proof -
  let ?b = "fetchPokemon_begin nameOrId p"
  have s: "fetchPokemon_settle (Resolved r) ?b = (None, p')"
    using assms(1,2) by (simp add: fetchPokemon_def)
  have okr: "ok r"
  proof (rule ccontr)
    assume "\<not> ok r"
    then have "fst (fetchPokemon_settle (Resolved r) ?b) \<noteq> None"
      by (simp add: fetchPokemon_settle_def try_block_def catch_block_raises)
    with s show False by simp
  qed
  then have t: "try_block (Resolved r) ?b = displayPokemon d ?b"
    using assms(3) by (simp add: try_block_def)
  show ?thesis
  proof (cases "displayPokemon d ?b")
    case (Pair x y)
    with s t show ?thesis
      by (cases x) (simp_all add: fetchPokemon_settle_def catch_block_raises)
  qed
qed

text \<open>
  C9. Two lookups that both succeed with the same record show the same name,
  identifier, height, weight, experience, images and categories, whatever the queries
  were and whatever the page showed before each of them.
\<close>

theorem lookup_deterministic:
  assumes "fetchPokemon net1 q1 p1 = (None, p1')"
    and "fetchPokemon net2 q2 p2 = (None, p2')"
    and "net1 (endpoint @ toLowerCase q1) = Resolved r1"
    and "net2 (endpoint @ toLowerCase q2) = Resolved r2"
    and "json r1 = Inr d" and "json r2 = Inr d"
  shows "DisplayModel p1' = DisplayModel p2'"
proof -
  have "p1' = snd (displayPokemon d (fetchPokemon_begin q1 p1))"
    using assms(1,3,5) by (rule fetchPokemon_success)
  moreover have "p2' = snd (displayPokemon d (fetchPokemon_begin q2 p2))"
    using assms(2,4,6) by (rule fetchPokemon_success)
  ultimately show ?thesis
    using displayPokemon_model [of d "fetchPokemon_begin q1 p1" "fetchPokemon_begin q2 p2"] by simp
qed

lemma fetchPokemon_net_ok:
  "fetchPokemon net_ok nameOrId p = (None, snd (fetchPokemon net_ok nameOrId p))"
proof -
  have "fetchPokemon net_ok nameOrId p = displayPokemon pikachu (fetchPokemon_begin nameOrId p)"
    using displayPokemon_pikachu [of "fetchPokemon_begin nameOrId p"]
    by (cases "displayPokemon pikachu (fetchPokemon_begin nameOrId p)")
       (simp add: fetchPokemon_def Let_def fetchPokemon_settle_def try_block_def net_ok_def ok_def)
  then show ?thesis using displayPokemon_pikachu [of "fetchPokemon_begin nameOrId p"]
    by (metis prod.collapse)
qed

theorem lookup_deterministic_witness:
  "fetchPokemon net_ok ''pikachu'' example_page =
     (None, snd (fetchPokemon net_ok ''pikachu'' example_page))
   \<and> fetchPokemon net_ok ''Pikachu'' (snd (fetchPokemon net_ok ''pikachu'' example_page)) =
     (None, snd (fetchPokemon net_ok ''Pikachu'' (snd (fetchPokemon net_ok ''pikachu'' example_page))))
   \<and> DisplayModel (snd (fetchPokemon net_ok ''pikachu'' example_page)) =
     DisplayModel (snd (fetchPokemon net_ok ''Pikachu'' (snd (fetchPokemon net_ok ''pikachu'' example_page))))"
proof -
  let ?p1 = "snd (fetchPokemon net_ok ''pikachu'' example_page)"
  have a: "fetchPokemon net_ok ''pikachu'' example_page = (None, ?p1)" by (rule fetchPokemon_net_ok)
  have b: "fetchPokemon net_ok ''Pikachu'' ?p1 = (None, snd (fetchPokemon net_ok ''Pikachu'' ?p1))"
    by (rule fetchPokemon_net_ok)
  have n: "net_ok (endpoint @ toLowerCase ''pikachu'') = Resolved \<lparr>status = 200, json = Inr pikachu\<rparr>"
     "net_ok (endpoint @ toLowerCase ''Pikachu'') = Resolved \<lparr>status = 200, json = Inr pikachu\<rparr>"
    by (simp_all add: net_ok_def)
  have j: "json \<lparr>status = 200, json = Inr pikachu\<rparr> = Inr pikachu" by simp
  from lookup_deterministic [OF a b n j j] a b show ?thesis by simp
qed

section \<open>Height and weight\<close>

lemma digit_char_0: "digit_char 0 = CHR ''0''"
  by (simp add: digit_char_def)

lemma toFixed_2_nonneg:
  assumes "0 \<le> y" and "nat \<lfloor>\<bar>y\<bar> * 10 ^ 2 + 1 / 2\<rfloor> = n"
  shows "toFixed y 2 =
    (let m = (if n = 0 then ''0'' else decimal n);
         z = (if length m \<le> 2 then replicate (3 - length m) (CHR ''0'') @ m else m)
     in take (length z - 2) z @ ''.'' @ drop (length z - 2) z)"
proof -
  have "\<not> y < 0" using assms(1) by simp
  then show ?thesis
    unfolding toFixed_def Let_def using assms(2) by (simp only: if_False append_Nil) simp
qed

lemma rep2: "replicate 2 c = [c, c]"
  by (simp add: numeral_2_eq_2)

lemma tenths_string:
  assumes "0 \<le> y" and "nat \<lfloor>\<bar>y\<bar> * 10 ^ 2 + 1 / 2\<rfloor> = 10 * h"
  shows "toFixed y 2 = decimal (h div 10) @ ''.'' @ [digit_char (h mod 10), CHR ''0'']"
proof -
  note tf = toFixed_2_nonneg [OF assms]
  consider "h = 0" | "0 < h" "h < 10" | "10 \<le> h" by linarith
  then show ?thesis
  proof cases
    case 1
    have "decimal (h div 10) = ''0''" "digit_char (h mod 10) = CHR ''0''"
      using 1 by (simp_all add: decimal_lt_10 digit_char_0)
    moreover have "toFixed y 2 = ''0.00''"
      unfolding tf using 1 by (simp add: rep2)
    ultimately show ?thesis by simp
  next
    case 2
    then have m: "decimal (10 * h) = [digit_char h, CHR ''0'']"
      using decimal_lt_100 [of "10 * h"] by (simp add: digit_char_0)
    have "decimal (h div 10) = ''0''" "digit_char (h mod 10) = digit_char h"
      using 2 by (simp_all add: decimal_lt_10 digit_char_0)
    moreover have "toFixed y 2 = [CHR ''0'', CHR ''.'', digit_char h, CHR ''0'']"
      unfolding tf using 2 by (simp add: m)
    ultimately show ?thesis by simp
  next
    case 3
    have "decimal (10 * h) = decimal h @ [CHR ''0'']"
      using 3 decimal_ge_10 [of "10 * h"] by (simp add: digit_char_0)
    then have m: "decimal (10 * h) = decimal (h div 10) @ [digit_char (h mod 10), CHR ''0'']"
      using 3 by (simp add: decimal_ge_10 [of h])
    have ne: "0 < length (decimal (h div 10))" using decimal_nonempty [of "h div 10"] by simp
    show ?thesis unfolding tf using 3 ne by (simp add: m)
  qed
qed

lemma tenths_rounded:
  fixes h :: nat
  assumes "h < 10 ^ 14"
  shows "nat \<lfloor>\<bar>round_double (of_nat h / 10)\<bar> * 10 ^ 2 + 1 / 2\<rfloor> = 10 * h"
proof (cases "h = 0")
  case True
  then show ?thesis by (simp add: round_double_def)
next
  case False
  let ?x = "(of_nat h :: rat) / 10"
  let ?r = "round_double ?x"
  have x: "0 < ?x" using False by simp
  have r: "0 < ?r" using x by (rule round_double_pos)
  have hb: "(of_nat h :: rat) < 100000000000000"
  proof -
    have "(of_nat h :: rat) < of_nat (10 ^ 14)" using assms by (simp only: of_nat_less_iff)
    then show ?thesis by simp
  qed
  have e: "\<bar>?r - ?x\<bar> \<le> ?x / 9007199254740992"
    using round_double_error [OF x] by simp
  have c: "of_int (10 * int h) = (10 :: rat) * of_nat h" by simp
  have lo: "of_int (10 * int h) \<le> ?r * 100 + 1 / 2"
    unfolding c using e hb by linarith
  have hi: "?r * 100 + 1 / 2 < of_int (10 * int h) + 1"
    unfolding c using e hb by linarith
  have "\<lfloor>?r * 100 + 1 / 2\<rfloor> = 10 * int h"
    using lo hi by (rule floor_unique)
  then show ?thesis using r by simp
qed

lemma toFixed_minus: "0 < y \<Longrightarrow> toFixed (- y) f = CHR ''-'' # toFixed y f"
  by (simp add: toFixed_def Let_def)

lemma tenths_fixed:
  fixes h :: int
  assumes "\<bar>h\<bar> < 10 ^ 14"
  shows "toFixed (round_double (of_int h / 10)) 2 =
           (if h < 0 then ''-'' else []) @ decimal (nat \<bar>h\<bar> div 10) @ ''.'' @
             [digit_char (nat \<bar>h\<bar> mod 10), CHR ''0'']"
proof -
  define n where "n = nat \<bar>h\<bar>"
  define y where "y = round_double (of_nat n / 10)"
  have n: "n < 10 ^ 14" using assms by (simp add: n_def nat_less_iff)
  have y0: "0 \<le> y"
  proof (cases "n = 0")
    case True
    then show ?thesis by (simp add: y_def round_double_def)
  next
    case False
    then have "0 < (of_nat n :: rat) / 10" by simp
    then have "0 < y" unfolding y_def by (rule round_double_pos)
    then show ?thesis by simp
  qed
  have s: "toFixed y 2 = decimal (n div 10) @ ''.'' @ [digit_char (n mod 10), CHR ''0'']"
    using y0 tenths_rounded [OF n] unfolding y_def by (rule tenths_string)
  show ?thesis
  proof (cases "h < 0")
    case False
    then have "h = int n" by (simp add: n_def)
    then have "(of_int h :: rat) = of_nat n" by simp
    then have "toFixed (round_double (of_int h / 10)) 2 = toFixed y 2" by (simp only: y_def)
    with s False show ?thesis by (simp only: n_def if_False append_Nil)
  next
    case True
    then have hn: "h = - int n" by (simp add: n_def)
    have "n \<noteq> 0" using True by (simp add: n_def)
    then have "0 < (of_nat n :: rat) / 10" by simp
    then have "0 < y" unfolding y_def by (rule round_double_pos)
    then have m: "toFixed (- y) 2 = CHR ''-'' # toFixed y 2" by (rule toFixed_minus)
    have "(of_int h :: rat) / 10 = - (of_nat n / 10)" unfolding hn by simp
    then have "round_double (of_int h / 10) = - y" by (simp only: y_def round_double_minus)
    then have "toFixed (round_double (of_int h / 10)) 2 = CHR ''-'' # toFixed y 2"
      using m by (simp only:)
    with s True show ?thesis by (simp only: n_def if_True append_Cons append_Nil)
  qed
qed

text \<open>
  C7, as the code has it. For an integer height and weight of magnitude below \<open>10^14\<close>
  the height shown is the height divided by 10 with exactly two decimals (the integer
  part, a point, the tenths digit and a zero, after a minus sign for a negative value)
  followed by \<open>m\<close> after a space, and the weight likewise followed by \<open>kg\<close>. So 4 gives
  \<open>0.40 m\<close> and 60 gives \<open>6.00 kg\<close>.
\<close>

theorem unit_conversion:
  assumes "\<bar>h\<bar> < 10 ^ 14" and "\<bar>w\<bar> < 10 ^ 14"
  shows "pokemonHeight_textContent (snd (displayPokemon (data\<lparr>data_height := h, data_weight := w\<rparr>) p)) =
           (if h < 0 then ''-'' else []) @ decimal (nat \<bar>h\<bar> div 10) @ ''.'' @
             [digit_char (nat \<bar>h\<bar> mod 10), CHR ''0''] @ '' m''
         \<and> pokemonWeight_textContent (snd (displayPokemon (data\<lparr>data_height := h, data_weight := w\<rparr>) p)) =
           (if w < 0 then ''-'' else []) @ decimal (nat \<bar>w\<bar> div 10) @ ''.'' @
             [digit_char (nat \<bar>w\<bar> mod 10), CHR ''0''] @ '' kg''"
proof -
  have "\<bar>h\<bar> < 2 ^ 53" "\<bar>w\<bar> < 2 ^ 53" using assms by simp_all
  then have "Number h = of_int h" "Number w = of_int w" by (simp_all only: Number_of_int)
  then show ?thesis
    using tenths_fixed [OF assms(1)] tenths_fixed [OF assms(2)]
    by (simp add: displayPokemon_fields convertHeight_def convertWeight_def)
qed

theorem unit_conversion_witness:
  "\<bar>4 :: int\<bar> < 10 ^ 14 \<and> \<bar>60 :: int\<bar> < 10 ^ 14
   \<and> pokemonHeight_textContent (snd (displayPokemon pikachu example_page)) = ''0.40 m''
   \<and> pokemonWeight_textContent (snd (displayPokemon pikachu example_page)) = ''6.00 kg''"
proof -
  have a: "\<bar>4 :: int\<bar> < 10 ^ 14" "\<bar>60 :: int\<bar> < 10 ^ 14" by simp_all
  have p: "pikachu\<lparr>data_height := 4, data_weight := 60\<rparr> = pikachu" by (simp add: pikachu_def)
  have d: "decimal 0 = ''0''" "decimal 6 = ''6''" "digit_char 4 = CHR ''4''" "digit_char 0 = CHR ''0''"
    by code_simp+
  show ?thesis
    using unit_conversion [OF a, of pikachu example_page] a d by (simp add: p)
qed

text \<open>
  C7 as stated, for every integer, fails: the quotient is a double, and for
  \<open>9007199254740991\<close> the double nearest to a tenth of it is \<open>900719925474099.125\<close>,
  which \<open>toFixed(2)\<close> writes with the decimals \<open>13\<close>, not \<open>10\<close>.
\<close>

lemma round_double_example:
  "round_double (9007199254740991 / 10) = 7205759403792793 / 8"
  by code_simp

lemma decimal_example: "decimal 90071992547409913 = ''90071992547409913''"
  by (simp add: decimal.simps digit_char_def)

lemma toFixed_example: "toFixed (7205759403792793 / 8) 2 = ''900719925474099.13''"
proof -
  have "nat \<lfloor>\<bar>7205759403792793 / 8 :: rat\<bar> * 10 ^ 2 + 1 / 2\<rfloor> = 90071992547409913"
    by simp
  then have "toFixed (7205759403792793 / 8) 2 =
    (let m = (if (90071992547409913 :: nat) = 0 then ''0'' else decimal 90071992547409913);
         z = (if length m \<le> 2 then replicate (3 - length m) (CHR ''0'') @ m else m)
     in take (length z - 2) z @ ''.'' @ drop (length z - 2) z)"
    by (intro toFixed_2_nonneg) simp_all
  then show ?thesis by (simp add: decimal_example)
qed

theorem unit_conversion_counterexample:
  "convertHeight 9007199254740991 = ''900719925474099.13 m''
   \<and> convertHeight 9007199254740991 \<noteq> ''900719925474099.10 m''
   \<and> convertWeight 9007199254740991 = ''900719925474099.13 kg''
   \<and> convertWeight 9007199254740991 \<noteq> ''900719925474099.10 kg''"
proof -
  have "Number 9007199254740991 = of_int 9007199254740991" by (rule Number_of_int) simp
  then show ?thesis
    by (simp add: convertHeight_def convertWeight_def round_double_example toFixed_example)
qed

end
